theory Spec2Isabelle
  imports Complex_Main "HOL-Library.Sublist" "HOL-Library.Multiset"
begin

text \<open>
  A model of the retrieval and answer engine of Sage's Oracle: the chunker
  (\<open>backend/utils/chunking.py\<close>), the index build (\<open>backend/etl/pipeline.py\<close>) and the
  engine (\<open>backend/core/rag_engine.py\<close>). The tokenizer, the embedding model and the
  generation service are external and enter as parameters. Every function that can raise
  returns a sum, the exception on the left.
\<close>

section \<open>Python values, errors and built-ins\<close>

text \<open>
  The raw records (spells, monsters, rules) and the chunk metadata are JSON documents read
  with \<open>json.load\<close>: dictionaries whose values may be of any JSON type. A dictionary is an
  association list, looked up with \<open>map_of\<close>. Floats are modelled as reals.
\<close>

datatype json =
    JNull
  | JBool bool
  | JInt int
  | JFloat real
  | JStr string
  | JList "json list"
  | JObj "(string \<times> json) list"

text \<open>The exceptions the modelled code can raise; \<open>KeyError\<close> carries the missing key.\<close>

datatype py_error =
    KeyError string
  | IndexError
  | TypeError
  | AttributeError
  | ValueError
  | OSError string

type_synonym 'a result = "py_error + 'a"

definition bind :: "'a result \<Rightarrow> ('a \<Rightarrow> 'b result) \<Rightarrow> 'b result" where
  "bind m f = (case m of Inl e \<Rightarrow> Inl e | Inr x \<Rightarrow> f x)"

text \<open>\<open>d.get(k, default)\<close> and \<open>d[k]\<close> on a dictionary.\<close>

definition dict_get :: "(string \<times> json) list \<Rightarrow> string \<Rightarrow> json \<Rightarrow> json" where
  "dict_get d k dflt = (case map_of d k of None \<Rightarrow> dflt | Some v \<Rightarrow> v)"

definition dict_item :: "(string \<times> json) list \<Rightarrow> string \<Rightarrow> json result" where
  "dict_item d k = (case map_of d k of None \<Rightarrow> Inl (KeyError k) | Some v \<Rightarrow> Inr v)"

text \<open>
  \<open>xs[i:]\<close> and \<open>xs[i:j]\<close>: a negative bound counts from the end and every bound is
  clamped to the list (\<open>nat\<close> of a negative integer is \<open>0\<close>).
\<close>

definition slice_bound :: "nat \<Rightarrow> int \<Rightarrow> nat" where
  "slice_bound n i = (if i < 0 then nat (int n + i) else min (nat i) n)"

definition slice_from :: "'a list \<Rightarrow> int \<Rightarrow> 'a list" where
  "slice_from xs i = drop (slice_bound (length xs) i) xs"

definition slice :: "'a list \<Rightarrow> int \<Rightarrow> int \<Rightarrow> 'a list" where
  "slice xs i j =
     (let lo = slice_bound (length xs) i; hi = slice_bound (length xs) j
      in take (hi - lo) (drop lo xs))"

text \<open>
  \<open>str(n)\<close> for an integer and the format \<open>{n:+d}\<close>, which always writes the sign.
\<close>

function str_nat :: "nat \<Rightarrow> string" where
  "str_nat n =
     (if n < 10 then [char_of (48 + n)] else str_nat (n div 10) @ [char_of (48 + n mod 10)])"
  by pat_completeness auto
termination
  by (relation "measure (\<lambda>n. n)") auto

declare str_nat.simps [simp del]

definition str_int :: "int \<Rightarrow> string" where
  "str_int n = (if n < 0 then ''-'' @ str_nat (nat (- n)) else str_nat (nat n))"



text \<open>
  \<open>str(v)\<close>, as an f-string field applies it. On \<open>None\<close>, a boolean, an integer and a string
  it is written out; on a float, a list or a dictionary it is Python's \<open>repr\<close>, which the
  model takes as a parameter.
\<close>

definition str :: "(json \<Rightarrow> string) \<Rightarrow> json \<Rightarrow> string" where
  "str repr v =
     (case v of
        JNull \<Rightarrow> ''None''
      | JBool b \<Rightarrow> (if b then ''True'' else ''False'')
      | JInt n \<Rightarrow> str_int n
      | JStr s \<Rightarrow> s
      | _ \<Rightarrow> repr v)"


text \<open>\<open>s.strip()\<close>: ASCII whitespace is removed from both ends.\<close>

definition isspace :: "char \<Rightarrow> bool" where
  "isspace c = (let n = (of_char c :: nat) in n = 32 \<or> (9 \<le> n \<and> n \<le> 13) \<or> (28 \<le> n \<and> n \<le> 31))"

definition strip :: "string \<Rightarrow> string" where
  "strip s = rev (dropWhile isspace (rev (dropWhile isspace s)))"



text \<open>\<open>v.get(k, default)\<close> on a value that need not be a dictionary.\<close>

fun attr_get :: "json \<Rightarrow> string \<Rightarrow> json \<Rightarrow> json result" where
  "attr_get (JObj d) k dflt = Inr (dict_get d k dflt)"
| "attr_get _ k dflt = Inl AttributeError"


text \<open>\<open>sep.join(parts)\<close>: every part must be a string.\<close>

fun join :: "string \<Rightarrow> string list \<Rightarrow> string" where
  "join sep [] = []"
| "join sep [x] = x"
| "join sep (x # y # ys) = x @ sep @ join sep (y # ys)"




text \<open>\<open>range(start, stop, step)\<close>, which refuses a zero step.\<close>

definition py_range :: "int \<Rightarrow> int \<Rightarrow> int \<Rightarrow> int list result" where
  "py_range start stop step =
     (if step = 0 then Inl ValueError
      else if 0 < step
        then Inr (map (\<lambda>k. start + int k * step) [0..<nat ((stop - start + step - 1) div step)])
        else Inr (map (\<lambda>k. start + int k * step) [0..<nat ((start - stop - step - 1) div (- step))]))"

section \<open>Chunks and index entries\<close>

text \<open>
  A chunk is the three-key dictionary literal the chunker builds (\<open>text\<close>, \<open>metadata\<close>,
  \<open>token_count\<close>); its metadata is a dictionary whose keys vary with the chunk type.
\<close>

record chunk =
  "text" :: string
  metadata :: "(string \<times> json) list"
  token_count :: int

type_synonym vec = "real list"

text \<open>One entry of \<open>metadata.json\<close>, as written by the index build.\<close>

record meta_entry =
  entry_id :: nat
  entry_metadata :: "(string \<times> json) list"
  entry_token_count :: int

section \<open>The chunker\<close>

text \<open>
  \<open>TextChunker\<close> holds a tiktoken encoding: \<open>encode\<close> maps a text to its token ids and
  \<open>decode\<close> maps token ids back to text. \<open>repr\<close> is Python's rendering of floats, lists
  and dictionaries inside f-strings.
\<close>

record text_chunker =
  encode :: "string \<Rightarrow> nat list"
  decode :: "nat list \<Rightarrow> string"
  repr :: "json \<Rightarrow> string"

definition count_tokens :: "text_chunker \<Rightarrow> string \<Rightarrow> int" where
  "count_tokens self s = int (length (encode self s))"











text \<open>
  \<open>chunk_rule_section\<close>. The loop over \<open>range(0, len(tokens), max_tokens - overlap)\<close> appends
  one chunk per start index; \<open>chunk_index\<close> is the number of chunks appended so far.
\<close>

definition rule_metadata :: "json \<Rightarrow> string \<Rightarrow> (string \<times> json) list" where
  "rule_metadata title url =
     [(''type'', JStr ''rule''), (''section'', title), (''source'', JStr ''SRD 5e''),
      (''url'', JStr url)]"

definition window_metadata :: "json \<Rightarrow> nat \<Rightarrow> string \<Rightarrow> (string \<times> json) list" where
  "window_metadata title chunk_index url =
     [(''type'', JStr ''rule''), (''section'', title), (''chunk_index'', JInt (int chunk_index)),
      (''source'', JStr ''SRD 5e''), (''url'', JStr url)]"

fun window_loop ::
  "text_chunker \<Rightarrow> json \<Rightarrow> string \<Rightarrow> nat list \<Rightarrow> int \<Rightarrow> int list \<Rightarrow> chunk list \<Rightarrow> chunk list"
where
  "window_loop self title url tokens max_tokens [] chunks = chunks"
| "window_loop self title url tokens max_tokens (i # rest) chunks =
     (let chunk_tokens = slice tokens i (i + max_tokens);
          chunk_text = decode self chunk_tokens
      in window_loop self title url tokens max_tokens rest
           (chunks @ [\<lparr>text = chunk_text,
                        metadata = window_metadata title (length chunks) url,
                        token_count = int (length chunk_tokens)\<rparr>]))"

definition rule_text :: "text_chunker \<Rightarrow> (string \<times> json) list \<Rightarrow> string" where
  "rule_text self rule_data =
     ''# '' @ str (repr self) (dict_get rule_data ''name'' (JStr ''Unknown Rule'')) @
     ''\<newline>\<newline>'' @ str (repr self) (dict_get rule_data ''desc'' (JStr []))"

definition chunk_rule_section ::
  "text_chunker \<Rightarrow> (string \<times> json) list \<Rightarrow> int \<Rightarrow> int \<Rightarrow> chunk list result" where
  "chunk_rule_section self rule_data max_tokens overlap =
     (let title = dict_get rule_data ''name'' (JStr ''Unknown Rule'');
          full_text = rule_text self rule_data;
          n_tokens = count_tokens self full_text;
          url = ''https://www.dnd5eapi.co'' @ str (repr self) (dict_get rule_data ''url'' (JStr []))
      in if n_tokens \<le> max_tokens
         then Inr [\<lparr>text = full_text, metadata = rule_metadata title url,
                    token_count = n_tokens\<rparr>]
         else let tokens = encode self full_text
              in bind (py_range 0 (int (length tokens)) (max_tokens - overlap)) (\<lambda>starts.
                   Inr (window_loop self title url tokens max_tokens starts [])))"

section \<open>The index build\<close>

text \<open>
  \<open>ETLPipeline.step_3_generate_embeddings\<close>: the texts are embedded in one call and the
  metadata entries are numbered by \<open>enumerate\<close>. The result is the pair of artifacts written
  to \<open>embeddings.npy\<close> and \<open>metadata.json\<close>.
\<close>

definition step_3_generate_embeddings ::
  "(string list \<Rightarrow> vec list) \<Rightarrow> chunk list \<Rightarrow> vec list \<times> meta_entry list" where
  "step_3_generate_embeddings model chunks =
     (let texts = map text chunks;
          embeddings = model texts;
          entries = map (\<lambda>(i, chunk). \<lparr>entry_id = i, entry_metadata = metadata chunk,
                                        entry_token_count = token_count chunk\<rparr>)
                       (enumerate 0 chunks)
      in (embeddings, entries))"

section \<open>Engine construction\<close>

text \<open>
  The fields of \<open>RAGEngine\<close> that the methods read. The embedding model is the external
  \<open>SentenceTransformer.encode\<close>: a list of texts in, one vector per row out.
\<close>

record engine =
  chunks :: "chunk list"
  embeddings :: "vec list"
  engine_metadata :: "meta_entry list"
  embedding_model :: "string list \<Rightarrow> vec list"
  llm_url :: string
  llm_model :: string

text \<open>
  \<open>RAGEngine.__init__\<close>: the three loaders run in order, each either returning the parsed
  artifact or raising (a missing or unreadable file); then the embedding model is loaded.
  The arguments are the outcomes of the three reads and of the model constructor.
\<close>

definition init ::
  "chunk list result \<Rightarrow> vec list result \<Rightarrow> meta_entry list result \<Rightarrow>
   (string list \<Rightarrow> vec list) result \<Rightarrow> string \<Rightarrow> string \<Rightarrow> engine result" where
  "init load_chunks load_embeddings load_metadata load_model url model =
     bind load_chunks (\<lambda>cs.
     bind load_embeddings (\<lambda>es.
     bind load_metadata (\<lambda>ms.
     bind load_model (\<lambda>em.
       Inr \<lparr>chunks = cs, embeddings = es, engine_metadata = ms,
            embedding_model = em, llm_url = url, llm_model = model\<rparr>))))"

section \<open>Retrieval\<close>

text \<open>
  \<open>np.dot(matrix, vector)\<close>: one dot product per row; a row whose length differs from the
  vector's raises \<open>ValueError\<close>.
\<close>

definition dot :: "vec \<Rightarrow> vec \<Rightarrow> real" where
  "dot u v = sum_list (map2 (*) u v)"

definition np_dot :: "vec list \<Rightarrow> vec \<Rightarrow> real list result" where
  "np_dot m v =
     (if \<forall>row \<in> set m. length row = length v then Inr (map (\<lambda>row. dot row v) m)
      else Inl ValueError)"

text \<open>
  \<open>np.argsort\<close>: the indices that sort the array ascending. Equal values are kept in index
  order here; numpy's default sort leaves the order of ties to the implementation.
\<close>

definition argsort :: "real list \<Rightarrow> nat list" where
  "argsort xs = sort_key (\<lambda>i. xs ! i) [0..<length xs]"

text \<open>The result loop of \<open>retrieve\<close>: \<open>self.chunks[idx]\<close> raises when \<open>idx\<close> is out of range.\<close>

fun collect :: "chunk list \<Rightarrow> real list \<Rightarrow> nat list \<Rightarrow> (chunk \<times> real) list result" where
  "collect cs sims [] = Inr []"
| "collect cs sims (idx # rest) =
     (if idx < length cs
      then bind (collect cs sims rest) (\<lambda>results. Inr ((cs ! idx, sims ! idx) # results))
      else Inl IndexError)"

definition retrieve :: "engine \<Rightarrow> string \<Rightarrow> int \<Rightarrow> (chunk \<times> real) list result" where
  "retrieve self query top_k =
     (case embedding_model self [query] of
        [] \<Rightarrow> Inl IndexError
      | query_embedding # _ \<Rightarrow>
          bind (np_dot (embeddings self) query_embedding) (\<lambda>similarities.
            let top_indices = rev (slice_from (argsort similarities) (- top_k))
            in collect (chunks self) similarities top_indices))"

section \<open>Answer generation\<close>

text \<open>
  One entry of \<open>sources\<close>. Floats are reals here, so \<open>round(score, 3)\<close> is the nearest
  multiple of one thousandth, a tie going to the even one.
\<close>

record source_record =
  doc_id :: nat
  type :: json
  name :: json
  source :: json
  url :: json
  relevance_score :: real

record response =
  answer :: string
  sources :: "source_record list"
  context_used :: nat

definition round_half_even :: "real \<Rightarrow> int" where
  "round_half_even x =
     (let f = \<lfloor>x\<rfloor>; d = x - of_int f
      in if d < 1/2 then f else if 1/2 < d then f + 1 else if even f then f else f + 1)"

definition round_digits :: "real \<Rightarrow> nat \<Rightarrow> real" where
  "round_digits x ndigits = of_int (round_half_even (x * 10 ^ ndigits)) / 10 ^ ndigits"

text \<open>
  The dictionary literal of one source: \<open>metadata['type']\<close> and \<open>metadata['source']\<close> raise
  \<open>KeyError\<close> on a missing key, \<open>name\<close> and \<open>url\<close> are read with a default.
\<close>

definition make_source :: "nat \<Rightarrow> chunk \<Rightarrow> real \<Rightarrow> source_record result" where
  "make_source i chunk score =
     bind (dict_item (metadata chunk) ''type'') (\<lambda>t.
     bind (dict_item (metadata chunk) ''source'') (\<lambda>s.
       Inr \<lparr>doc_id = i, type = t,
            name = dict_get (metadata chunk) ''name'' (JStr ''Unknown''),
            source = s,
            url = dict_get (metadata chunk) ''url'' (JStr []),
            relevance_score = round_digits score 3\<rparr>))"

text \<open>The loop over \<open>enumerate(context_chunks, 1)\<close>, with its two accumulators.\<close>

fun context_loop ::
  "nat \<Rightarrow> (chunk \<times> real) list \<Rightarrow> string list \<Rightarrow> source_record list \<Rightarrow>
   (string list \<times> source_record list) result" where
  "context_loop i [] context_parts srcs = Inr (context_parts, srcs)"
| "context_loop i ((chunk, score) # rest) context_parts srcs =
     bind (make_source i chunk score) (\<lambda>src.
       context_loop (Suc i) rest
         (context_parts @ [''[Documento '' @ str_nat i @ '']'', text chunk, []])
         (srcs @ [src]))"

definition build_prompt :: "string \<Rightarrow> string \<Rightarrow> string" where
  \<open>build_prompt query context =
     ''You are Sage, a knowledgeable assistant for Dungeons & Dragons 5th Edition rules.\<newline>\<newline>Your role is to answer questions about D&D rules, spells, and monsters using ONLY the information provided in the documents below.\<newline>\<newline>IMPORTANT RULES:\<newline>1. Base your answer STRICTLY on the provided documents\<newline>2. If the answer is not in the documents, say "I don't have that information in my current knowledge base"\<newline>3. Cite document numbers when making specific claims (e.g., "According to Document 1...")\<newline>4. Be concise but complete\<newline>5. Use clear, accessible language\<newline>\<newline>DOCUMENTS:\<newline>'' @
     context @ ''\<newline>\<newline>QUESTION: '' @ query @ ''\<newline>\<newline>ANSWER:''\<close>

text \<open>
  The request to the generation service. \<open>requests.post\<close>, \<open>raise_for_status\<close> and
  \<open>response.json()\<close> together either raise a \<open>RequestException\<close> (connection error,
  timeout, HTTP error status), raise something else, or give the decoded body.
\<close>

record payload =
  model :: string
  prompt :: string
  stream :: bool
  temperature :: real
  num_predict :: nat

datatype http_outcome =
    RequestException string
  | OtherException py_error
  | Body json

type_synonym http_post = "string \<Rightarrow> payload \<Rightarrow> nat \<Rightarrow> http_outcome"

definition call_llm :: "engine \<Rightarrow> http_post \<Rightarrow> string \<Rightarrow> real \<Rightarrow> string result" where
  "call_llm self post p t =
     (case post (llm_url self)
             \<lparr>model = llm_model self, prompt = p, stream = False, temperature = t,
              num_predict = 500\<rparr> 60 of
        RequestException e \<Rightarrow> Inr (''Error calling LLM: '' @ e)
      | OtherException e \<Rightarrow> Inl e
      | Body result \<Rightarrow>
          bind (attr_get result ''response'' (JStr [])) (\<lambda>r.
            case r of JStr s \<Rightarrow> Inr (strip s) | _ \<Rightarrow> Inl AttributeError))"

definition generate_answer ::
  "engine \<Rightarrow> http_post \<Rightarrow> string \<Rightarrow> (chunk \<times> real) list \<Rightarrow> real \<Rightarrow> response result" where
  "generate_answer self post query context_chunks t =
     bind (context_loop 1 context_chunks [] []) (\<lambda>(context_parts, srcs).
       let context = join ''\<newline>'' context_parts;
           p = build_prompt query context
       in bind (call_llm self post p t) (\<lambda>a.
            Inr \<lparr>answer = a, sources = srcs, context_used = length context_chunks\<rparr>))"

section \<open>Concrete inputs\<close>

text \<open>
  An index of five chunks whose rows have the dot products 0.9, 0.1, 0.5, 0.7 and 0.2 with
  the query vector, and an index of two chunks with equal scores.
\<close>

definition scenario_engine :: engine where
  "scenario_engine =
     \<lparr>chunks = map (\<lambda>i. \<lparr>text = replicate (Suc i) (CHR ''a''), metadata = [],
                           token_count = int (Suc i)\<rparr>) [0..<5],
      embeddings = [[9/10], [1/10], [5/10], [7/10], [2/10]],
      engine_metadata = [],
      embedding_model = map (\<lambda>t. [1]),
      llm_url = ''http://localhost:11434/api/generate'',
      llm_model = ''phi3:mini''\<rparr>"

definition tie_engine :: engine where
  "tie_engine =
     \<lparr>chunks = [\<lparr>text = ''first'', metadata = [], token_count = 1\<rparr>,
                \<lparr>text = ''second'', metadata = [], token_count = 1\<rparr>],
      embeddings = [[1/2], [1/2]],
      engine_metadata = [],
      embedding_model = map (\<lambda>t. [1]),
      llm_url = ''http://localhost:11434/api/generate'',
      llm_model = ''phi3:mini''\<rparr>"

text \<open>An engine loaded from one chunk, two embedding rows and no metadata entry.\<close>

definition misaligned_chunks :: "chunk list" where
  "misaligned_chunks = [\<lparr>text = ''only'', metadata = [], token_count = 1\<rparr>]"

definition misaligned_engine :: engine where
  "misaligned_engine =
     \<lparr>chunks = misaligned_chunks,
      embeddings = [[1], [2]],
      engine_metadata = [],
      embedding_model = map (\<lambda>t. [1]),
      llm_url = ''http://localhost:11434/api/generate'',
      llm_model = ''phi3:mini''\<rparr>"

text \<open>
  Two ranked chunks (the second without \<open>name\<close> and \<open>url\<close>), a chunk whose metadata has no
  \<open>source\<close>, a generation service that always times out, and an embedding model that maps
  a text to its length.
\<close>

definition ranked_chunks :: "(chunk \<times> real) list" where
  "ranked_chunks =
     [(\<lparr>text = ''# Fireball'',
        metadata = [(''type'', JStr ''spell''), (''name'', JStr ''Fireball''),
                    (''source'', JStr ''SRD 5e''),
                    (''url'', JStr ''https://www.dnd5eapi.co/api/spells/fireball'')],
        token_count = 3\<rparr>, 9/10),
      (\<lparr>text = ''# Cover'',
        metadata = [(''type'', JStr ''rule''), (''section'', JStr ''Cover''),
                    (''source'', JStr ''SRD 5e'')],
        token_count = 2\<rparr>, 7/10)]"

definition unlabelled_chunks :: "(chunk \<times> real) list" where
  "unlabelled_chunks =
     [(\<lparr>text = ''# Cover'', metadata = [(''type'', JStr ''rule'')], token_count = 2\<rparr>, 7/10)]"

definition timeout_post :: http_post where
  "timeout_post u p seconds = RequestException ''Read timed out. (read timeout=60)''"

definition plain_engine :: engine where
  "plain_engine =
     \<lparr>chunks = [], embeddings = [], engine_metadata = [], embedding_model = map (\<lambda>t. [1]),
      llm_url = ''http://localhost:11434/api/generate'', llm_model = ''phi3:mini''\<rparr>"

definition length_embedding :: "string list \<Rightarrow> vec list" where
  "length_embedding texts = map (\<lambda>t. [real (length t)]) texts"

text \<open>
  A chunker with one token per character, a rule of five tokens and a rule of 1100 tokens.
\<close>

definition char_chunker :: text_chunker where
  "char_chunker = \<lparr>encode = map of_char, decode = map char_of, repr = (\<lambda>v. ''...'')\<rparr>"

definition short_rule :: "(string \<times> json) list" where
  "short_rule = [(''name'', JStr ''a'')]"

definition long_rule :: "(string \<times> json) list" where
  "long_rule = [(''name'', JStr ''Combat''), (''desc'', JStr (replicate 1090 (CHR ''x'')))]"



section \<open>Properties of retrieval\<close>

lemma map_sort_key: "map f (sort_key f xs) = sort (map f xs)"
proof (induction xs)
  case Nil
  show ?case by simp
next
  case (Cons x xs)
  have "map f (insort_key f x ys) = insort (f x) (map f ys)" for ys
    by (induction ys) simp_all
  with Cons show ?case by simp
qed

lemma nth_argsort: "map (\<lambda>i. xs ! i) (argsort xs) = sort xs"
  by (simp add: argsort_def map_sort_key map_nth)

lemma mset_argsort: "mset (argsort xs) = mset [0..<length xs]"
  by (simp add: argsort_def)

lemma length_argsort: "length (argsort xs) = length xs"
  by (simp add: argsort_def)

lemma set_argsort: "set (argsort xs) = {0..<length xs}"
  by (simp add: argsort_def)

lemma distinct_argsort: "distinct (argsort xs)"
proof -
  have "distinct [0..<length xs]" by simp
  then show ?thesis
    using mset_argsort [of xs] by (metis mset_eq_imp_distinct_iff)
qed

lemma collect_in_range:
  "\<forall>i \<in> set idxs. i < length cs \<Longrightarrow>
   collect cs sims idxs = Inr (map (\<lambda>i. (cs ! i, sims ! i)) idxs)"
  by (induction idxs) (simp_all add: bind_def)

lemma collect_out_of_range:
  "\<exists>i \<in> set idxs. length cs \<le> i \<Longrightarrow> collect cs sims idxs = Inl IndexError"
proof (induction idxs)
  case Nil
  then show ?case by simp
next
  case (Cons a idxs)
  show ?case
  proof (cases "a < length cs")
    case False
    then show ?thesis by simp
  next
    case True
    with Cons.prems have "\<exists>i \<in> set idxs. length cs \<le> i" by auto
    with Cons.IH have "collect cs sims idxs = Inl IndexError" by simp
    with True show ?thesis by (simp add: bind_def)
  qed
qed

lemma np_dot_length: "np_dot m v = Inr sims \<Longrightarrow> length sims = length m"
  by (auto simp add: np_dot_def split: if_splits)

lemma retrieve_eq:
  assumes q: "embedding_model self [query] = q # others"
    and sims: "np_dot (embeddings self) q = Inr sims"
    and aligned: "length (chunks self) = length (embeddings self)"
  shows "retrieve self query top_k =
     Inr (map (\<lambda>i. (chunks self ! i, sims ! i)) (rev (slice_from (argsort sims) (- top_k))))"
proof -
  have n: "length sims = length (chunks self)"
    using np_dot_length [OF sims] aligned by simp
  have "set (rev (slice_from (argsort sims) (- top_k))) \<subseteq> set (argsort sims)"
    by (simp add: slice_from_def set_drop_subset)
  then have "\<forall>i \<in> set (rev (slice_from (argsort sims) (- top_k))). i < length (chunks self)"
    using n by (auto simp add: set_argsort)
  then show ?thesis
    using q sims by (simp add: retrieve_def bind_def collect_in_range)
qed

lemma scores_eq:
  assumes "1 \<le> top_k"
  shows "map (\<lambda>i. sims ! i) (rev (slice_from (argsort sims) (- top_k))) =
     take (nat top_k) (rev (sort sims))"
proof -
  have b: "slice_bound (length sims) (- top_k) = length sims - nat top_k"
    using assms by (simp add: slice_bound_def nat_diff_distrib')
  have "map (\<lambda>i. sims ! i) (rev (slice_from (argsort sims) (- top_k))) =
      rev (drop (length sims - nat top_k) (map (\<lambda>i. sims ! i) (argsort sims)))"
    by (simp add: slice_from_def length_argsort b rev_map drop_map)
  also have "\<dots> = rev (drop (length sims - nat top_k) (sort sims))"
    by (simp add: nth_argsort)
  also have "\<dots> = take (nat top_k) (rev (sort sims))"
    by (cases "nat top_k \<le> length sims") (simp_all add: rev_drop)
  finally show ?thesis .
qed

lemma argsort_small:
  "argsort [1/2, 1/2] = [0, 1]"
  "argsort [9/10, 1/10, 5/10, 7/10, 2/10] = [1, 4, 2, 3, 0]"
  "argsort [9/10, 1/10, 1/2, 7/10, 1/5] = [1, 4, 2, 3, 0]"
  by (simp_all add: argsort_def upt_conv_Cons)

lemma scores_nonpositive:
  assumes "top_k \<le> 0"
  shows "map (\<lambda>i. sims ! i) (rev (slice_from (argsort sims) (- top_k))) =
     take (length sims - nat (- top_k)) (rev (sort sims))"
proof -
  have b: "slice_bound (length sims) (- top_k) = min (nat (- top_k)) (length sims)"
    using assms by (simp add: slice_bound_def)
  have "map (\<lambda>i. sims ! i) (rev (slice_from (argsort sims) (- top_k))) =
      rev (drop (min (nat (- top_k)) (length sims)) (map (\<lambda>i. sims ! i) (argsort sims)))"
    by (simp add: slice_from_def length_argsort b rev_map drop_map)
  also have "\<dots> = rev (drop (min (nat (- top_k)) (length sims)) (sort sims))"
    by (simp add: nth_argsort)
  also have "\<dots> = take (length sims - nat (- top_k)) (rev (sort sims))"
    by (simp add: rev_drop min_def)
  finally show ?thesis .
qed

text \<open>
  C1 (amended). On an aligned index of N chunks, with a query vector of the rows' dimension,
  \<open>retrieve\<close> with \<open>top_k \<ge> 1\<close> returns \<open>min top_k N\<close> pairs whose scores are the
  \<open>top_k\<close> largest similarities in descending order. The order is non-increasing; it is
  strictly descending when the similarities are pairwise distinct. With \<open>top_k \<ge> N\<close> every
  chunk is returned, and the similarities 0.9, 0.1, 0.5, 0.7, 0.2 with \<open>top_k = 3\<close> give
  chunks 0, 3 and 2 with scores 0.9, 0.7, 0.5.
\<close>

theorem retrieve_top_k:
  assumes q: "embedding_model self [query] = q # others"
    and sims: "np_dot (embeddings self) q = Inr sims"
    and aligned: "length (chunks self) = length (embeddings self)"
    and k: "1 \<le> top_k"
  shows "\<exists>results. retrieve self query top_k = Inr results
     \<and> length results = min (nat top_k) (length (chunks self))
     \<and> map snd results = take (nat top_k) (rev (sort sims))
     \<and> sorted (rev (map snd results))
     \<and> (distinct sims \<longrightarrow> sorted_wrt (\<lambda>a b. a > b) (map snd results))
     \<and> (int (length (chunks self)) \<le> top_k \<longrightarrow> mset (map fst results) = mset (chunks self))
     \<and> (sims = [9/10, 1/10, 5/10, 7/10, 2/10] \<and> top_k = 3 \<longrightarrow>
          results = [(chunks self ! 0, 9/10), (chunks self ! 3, 7/10), (chunks self ! 2, 5/10)])"
proof -
  define idxs where "idxs = rev (slice_from (argsort sims) (- top_k))"
  define results where "results = map (\<lambda>i. (chunks self ! i, sims ! i)) idxs"
  have n: "length sims = length (chunks self)"
    using np_dot_length [OF sims] aligned by simp
  have r: "retrieve self query top_k = Inr results"
    unfolding results_def idxs_def by (rule retrieve_eq [OF q sims aligned])
  have scores: "map snd results = take (nat top_k) (rev (sort sims))"
    using scores_eq [OF k, of sims] by (simp add: results_def idxs_def comp_def)
  have len: "length results = min (nat top_k) (length (chunks self))"
  proof -
    have "length results = length (map snd results)" by simp
    also have "\<dots> = min (nat top_k) (length (chunks self))"
      unfolding scores using n by simp
    finally show ?thesis .
  qed
  have desc: "sorted (rev (map snd results))"
  proof -
    have "rev (map snd results) = drop (length sims - nat top_k) (sort sims)"
      unfolding scores by (simp add: take_rev)
    then show ?thesis by (simp add: sorted_wrt_drop)
  qed
  have strict: "sorted_wrt (\<lambda>a b. a > b) (map snd results)" if "distinct sims"
  proof -
    from that have "distinct (sort sims)" by simp
    then have "sorted_wrt (<) (sort sims)"
      by (simp add: strict_sorted_iff)
    then have "sorted_wrt (\<lambda>a b. a > b) (rev (sort sims))"
      by (simp add: sorted_wrt_rev)
    then show ?thesis
      unfolding scores by (rule sorted_wrt_take)
  qed
  have all: "mset (map fst results) = mset (chunks self)" if "int (length (chunks self)) \<le> top_k"
  proof -
    from that k have "slice_bound (length sims) (- top_k) = 0"
      using n by (simp add: slice_bound_def)
    then have "mset idxs = mset [0..<length sims]"
      by (simp add: idxs_def slice_from_def length_argsort mset_argsort)
    then have "mset (map (\<lambda>i. chunks self ! i) idxs) = mset (map (\<lambda>i. chunks self ! i) [0..<length sims])"
      by (metis mset_map)
    then show ?thesis
      by (simp add: results_def comp_def n map_nth)
  qed
  have scen: "results = [(chunks self ! 0, 9/10), (chunks self ! 3, 7/10), (chunks self ! 2, 5/10)]"
    if "sims = [9/10, 1/10, 5/10, 7/10, 2/10] \<and> top_k = 3"
  proof -
    have "argsort [9/10, 1/10, 5/10, 7/10, 2/10] = [1, 4, 2, 3, 0]"
      by (simp add: argsort_def upt_conv_Cons)
    with that show ?thesis
      by (simp add: results_def idxs_def slice_from_def slice_bound_def)
  qed
  from r len scores desc strict all scen show ?thesis by blast
qed


theorem retrieve_top_k_witness:
  "embedding_model scenario_engine [''fireball''] = [1] # []
   \<and> np_dot (embeddings scenario_engine) [1] = Inr [9/10, 1/10, 5/10, 7/10, 2/10]
   \<and> length (chunks scenario_engine) = length (embeddings scenario_engine)
   \<and> (1::int) \<le> 3
   \<and> (\<exists>results. retrieve scenario_engine ''fireball'' 3 = Inr results
        \<and> length results = 3
        \<and> map snd results = [9/10, 7/10, 5/10])"
proof -
  have q: "embedding_model scenario_engine [''fireball''] = [1] # []"
    by (simp add: scenario_engine_def)
  have sims: "np_dot (embeddings scenario_engine) [1] = Inr [9/10, 1/10, 5/10, 7/10, 2/10]"
    by (simp add: scenario_engine_def np_dot_def dot_def)
  have aligned: "length (chunks scenario_engine) = length (embeddings scenario_engine)"
    by (simp add: scenario_engine_def)
  have k: "(1::int) \<le> 3" by simp
  from retrieve_top_k [OF q sims aligned k]
  obtain results where "retrieve scenario_engine ''fireball'' 3 = Inr results"
    and "length results = min (nat 3) (length (chunks scenario_engine))"
    and "results = [(chunks scenario_engine ! 0, 9/10), (chunks scenario_engine ! 3, 7/10),
           (chunks scenario_engine ! 2, 5/10)]"
    by blast
  then have "retrieve scenario_engine ''fireball'' 3 = Inr results \<and> length results = 3
      \<and> map snd results = [9/10, 7/10, 5/10]"
    by (simp add: scenario_engine_def)
  with q sims aligned k show ?thesis by simp
qed


text \<open>
  C1 as stated fails on equal scores: two chunks with the same similarity are both returned,
  and their scores are not strictly descending.
\<close>

theorem retrieve_ties_counterexample:
  "retrieve tie_engine ''fireball'' 2 =
     Inr [(\<lparr>text = ''second'', metadata = [], token_count = 1\<rparr>, 1/2),
          (\<lparr>text = ''first'', metadata = [], token_count = 1\<rparr>, 1/2)]
   \<and> \<not> sorted_wrt (\<lambda>a b. a > b) [1/2, 1/2 :: real]"
proof -
  have "np_dot (embeddings tie_engine) [1] = Inr [1/2, 1/2]"
    by (simp add: tie_engine_def np_dot_def dot_def)
  then have "retrieve tie_engine ''fireball'' 2 =
     Inr [(\<lparr>text = ''second'', metadata = [], token_count = 1\<rparr>, 1/2),
          (\<lparr>text = ''first'', metadata = [], token_count = 1\<rparr>, 1/2)]"
    by (simp add: retrieve_def tie_engine_def bind_def argsort_small
      slice_from_def slice_bound_def)
  moreover have "\<not> sorted_wrt (\<lambda>a b. a > b) [1/2, 1/2 :: real]"
    by (simp add: exI [of _ "1/2"])
  ultimately show ?thesis by (rule conjI)
qed

text \<open>
  C7 (amended). \<open>retrieve\<close> does not validate \<open>top_k\<close>. With \<open>top_k \<le> 0\<close> on an aligned
  index it computes the similarities and returns, without an error, \<open>N - |top_k|\<close> pairs
  (none when \<open>|top_k| \<ge> N\<close>): chunks at pairwise distinct positions of the index, each with
  its own similarity, the scores being the \<open>N - |top_k|\<close> largest similarities in
  descending order. For \<open>top_k = 0\<close> the returned chunks are all N chunks of the index.
\<close>

theorem retrieve_nonpositive_top_k:
  assumes q: "embedding_model self [query] = q # others"
    and sims: "np_dot (embeddings self) q = Inr sims"
    and aligned: "length (chunks self) = length (embeddings self)"
    and k: "top_k \<le> 0"
  shows "\<exists>results idxs. retrieve self query top_k = Inr results
     \<and> results = map (\<lambda>i. (chunks self ! i, sims ! i)) idxs
     \<and> distinct idxs \<and> set idxs \<subseteq> {0..<length (chunks self)}
     \<and> map snd results = take (length (chunks self) - nat (- top_k)) (rev (sort sims))
     \<and> length results = length (chunks self) - nat (- top_k)
     \<and> (top_k = 0 \<longrightarrow> mset (map fst results) = mset (chunks self))"
proof -
  define idxs where "idxs = rev (slice_from (argsort sims) (- top_k))"
  define results where "results = map (\<lambda>i. (chunks self ! i, sims ! i)) idxs"
  have n: "length sims = length (chunks self)"
    using np_dot_length [OF sims] aligned by simp
  have r: "retrieve self query top_k = Inr results"
    unfolding results_def idxs_def by (rule retrieve_eq [OF q sims aligned])
  have d: "distinct idxs"
    by (simp add: idxs_def slice_from_def distinct_argsort)
  have "set idxs \<subseteq> set (argsort sims)"
    by (simp add: idxs_def slice_from_def set_drop_subset)
  then have sub: "set idxs \<subseteq> {0..<length (chunks self)}"
    by (simp add: set_argsort n)
  have scores: "map snd results = take (length (chunks self) - nat (- top_k)) (rev (sort sims))"
    using scores_nonpositive [OF k, of sims] n by (simp add: results_def idxs_def comp_def)
  have "length results = length (map snd results)" by simp
  also have "\<dots> = length (chunks self) - nat (- top_k)"
    unfolding scores using n by simp
  finally have len: "length results = length (chunks self) - nat (- top_k)" .
  have all: "mset (map fst results) = mset (chunks self)" if "top_k = 0"
  proof -
    from that have "slice_bound (length sims) (- top_k) = 0"
      by (simp add: slice_bound_def)
    then have "mset idxs = mset [0..<length sims]"
      by (simp add: idxs_def slice_from_def length_argsort mset_argsort)
    then have "mset (map (\<lambda>i. chunks self ! i) idxs) =
        mset (map (\<lambda>i. chunks self ! i) [0..<length sims])"
      by (metis mset_map)
    then show ?thesis
      by (simp add: results_def comp_def n map_nth)
  qed
  from r d sub scores len all show ?thesis
    unfolding results_def by blast
qed

theorem retrieve_nonpositive_top_k_witness:
  "embedding_model scenario_engine [''fireball''] = [1] # []
   \<and> np_dot (embeddings scenario_engine) [1] = Inr [9/10, 1/10, 5/10, 7/10, 2/10]
   \<and> length (chunks scenario_engine) = length (embeddings scenario_engine)
   \<and> (- 2 :: int) \<le> 0
   \<and> (\<exists>results. retrieve scenario_engine ''fireball'' (- 2) = Inr results
        \<and> length results = 3)"
proof -
  have q: "embedding_model scenario_engine [''fireball''] = [1] # []"
    by (simp add: scenario_engine_def)
  have sims: "np_dot (embeddings scenario_engine) [1] = Inr [9/10, 1/10, 5/10, 7/10, 2/10]"
    by (simp add: scenario_engine_def np_dot_def dot_def)
  have aligned: "length (chunks scenario_engine) = length (embeddings scenario_engine)"
    by (simp add: scenario_engine_def)
  have k: "(- 2 :: int) \<le> 0" by simp
  from retrieve_nonpositive_top_k [OF q sims aligned k]
  obtain results where "retrieve scenario_engine ''fireball'' (- 2) = Inr results"
    and "length results = length (chunks scenario_engine) - nat (- (- 2))"
    by blast
  then have "retrieve scenario_engine ''fireball'' (- 2) = Inr results \<and> length results = 3"
    by (simp add: scenario_engine_def)
  with q sims aligned k show ?thesis by simp
qed

text \<open>
  C7 as stated fails: \<open>top_k = 0\<close> is not rejected, all five chunks of the index come back.
\<close>

theorem retrieve_zero_counterexample:
  "retrieve scenario_engine ''fireball'' 0 =
     Inr [(chunks scenario_engine ! 0, 9/10), (chunks scenario_engine ! 3, 7/10),
          (chunks scenario_engine ! 2, 5/10), (chunks scenario_engine ! 4, 2/10),
          (chunks scenario_engine ! 1, 1/10)]"
proof -
  have "np_dot (embeddings scenario_engine) [1] = Inr [9/10, 1/10, 5/10, 7/10, 2/10]"
    by (simp add: scenario_engine_def np_dot_def dot_def)
  then show ?thesis
    by (simp add: retrieve_def scenario_engine_def bind_def argsort_small
      slice_from_def slice_bound_def)
qed


section \<open>Properties of engine construction\<close>

text \<open>
  C2 (amended). The constructor compares no lengths: whenever the three artifacts and the
  embedding model load, the engine is built holding them as they are. A misalignment shows
  only later: with fewer chunks than embedding rows, a retrieval that selects every row
  fails with \<open>IndexError\<close>.
\<close>

theorem init_no_length_check:
  "\<exists>self. init (Inr cs) (Inr es) (Inr ms) (Inr em) u m = Inr self
     \<and> chunks self = cs \<and> embeddings self = es \<and> engine_metadata self = ms
     \<and> (length cs < length es \<and> em [query] = q # others
          \<and> (\<forall>row \<in> set es. length row = length q) \<and> int (length es) \<le> top_k
        \<longrightarrow> retrieve self query top_k = Inl IndexError)"
proof -
  define self where "self = \<lparr>chunks = cs, embeddings = es, engine_metadata = ms,
    embedding_model = em, llm_url = u, llm_model = m\<rparr>"
  have i: "init (Inr cs) (Inr es) (Inr ms) (Inr em) u m = Inr self"
    by (simp add: init_def bind_def self_def)
  have "retrieve self query top_k = Inl IndexError"
    if less: "length cs < length es" and q: "em [query] = q # others"
      and dims: "\<forall>row \<in> set es. length row = length q" and k: "int (length es) \<le> top_k"
  proof -
    define sims where "sims = map (\<lambda>row. dot row q) es"
    have d: "np_dot es q = Inr sims"
      using dims by (simp add: np_dot_def sims_def)
    have n: "length sims = length es" by (simp add: sims_def)
    have "slice_bound (length sims) (- top_k) = 0"
      using k n by (simp add: slice_bound_def)
    then have "set (rev (slice_from (argsort sims) (- top_k))) = {0..<length es}"
      by (simp add: slice_from_def length_argsort set_argsort n)
    with less have "\<exists>i \<in> set (rev (slice_from (argsort sims) (- top_k))). length cs \<le> i"
      by auto
    then have "collect cs sims (rev (slice_from (argsort sims) (- top_k))) = Inl IndexError"
      by (rule collect_out_of_range)
    with q d show ?thesis
      by (simp add: retrieve_def self_def bind_def)
  qed
  with i show ?thesis by (auto simp add: self_def)
qed

theorem init_no_length_check_witness:
  "init (Inr misaligned_chunks) (Inr [[1], [2]]) (Inr []) (Inr (map (\<lambda>t. [1])))
      ''http://localhost:11434/api/generate'' ''phi3:mini'' = Inr misaligned_engine
   \<and> length misaligned_chunks < length [[1], [2 :: real]]
   \<and> retrieve misaligned_engine ''fireball'' 5 = Inl IndexError"
proof -
  have i: "init (Inr misaligned_chunks) (Inr [[1], [2]]) (Inr []) (Inr (map (\<lambda>t. [1])))
      ''http://localhost:11434/api/generate'' ''phi3:mini'' = Inr misaligned_engine"
    by (simp add: init_def bind_def misaligned_engine_def)
  have l: "length misaligned_chunks < length [[1], [2 :: real]]"
    by (simp add: misaligned_chunks_def)
  from init_no_length_check [of misaligned_chunks "[[1], [2]]" "[]" "map (\<lambda>t. [1])"
      "''http://localhost:11434/api/generate''" "''phi3:mini''" "''fireball''" "[1]" "[]" 5]
  have "retrieve misaligned_engine ''fireball'' 5 = Inl IndexError"
    using i l by simp
  with i l show ?thesis by simp
qed

text \<open>
  C2 as stated fails: one chunk, two embedding rows and an empty metadata sequence load
  into an engine without any error.
\<close>

theorem init_misaligned_counterexample:
  "init (Inr [\<lparr>text = ''only'', metadata = [], token_count = 1\<rparr>]) (Inr [[1], [2]]) (Inr [])
      (Inr (map (\<lambda>t. [1]))) ''http://localhost:11434/api/generate'' ''phi3:mini'' =
   Inr \<lparr>chunks = [\<lparr>text = ''only'', metadata = [], token_count = 1\<rparr>],
        embeddings = [[1], [2]],
        engine_metadata = [],
        embedding_model = map (\<lambda>t. [1]),
        llm_url = ''http://localhost:11434/api/generate'',
        llm_model = ''phi3:mini''\<rparr>"
  by (simp add: init_def bind_def)

section \<open>Properties of answer generation\<close>

lemma make_source_ok:
  "map_of (metadata c) ''type'' \<noteq> None \<Longrightarrow> map_of (metadata c) ''source'' \<noteq> None \<Longrightarrow>
   make_source i c s =
     Inr \<lparr>doc_id = i, type = dict_get (metadata c) ''type'' JNull,
          name = dict_get (metadata c) ''name'' (JStr ''Unknown''),
          source = dict_get (metadata c) ''source'' JNull,
          url = dict_get (metadata c) ''url'' (JStr []),
          relevance_score = round_digits s 3\<rparr>"
  by (auto simp add: make_source_def dict_item_def dict_get_def bind_def)

lemma make_source_missing:
  "map_of (metadata c) ''type'' = None \<or> map_of (metadata c) ''source'' = None \<Longrightarrow>
   make_source i c s = Inl (KeyError ''type'') \<or> make_source i c s = Inl (KeyError ''source'')"
  by (auto simp add: make_source_def dict_item_def bind_def split: option.splits)

lemma context_loop_ok:
  "\<forall>(c, s) \<in> set cs. map_of (metadata c) ''type'' \<noteq> None \<and> map_of (metadata c) ''source'' \<noteq> None \<Longrightarrow>
   context_loop i cs parts srcs =
     Inr (parts @ concat (map (\<lambda>(j, c, s). [''[Documento '' @ str_nat j @ '']'', text c, []])
                      (enumerate i cs)),
          srcs @ map (\<lambda>(j, c, s).
                  \<lparr>doc_id = j, type = dict_get (metadata c) ''type'' JNull,
                   name = dict_get (metadata c) ''name'' (JStr ''Unknown''),
                   source = dict_get (metadata c) ''source'' JNull,
                   url = dict_get (metadata c) ''url'' (JStr []),
                   relevance_score = round_digits s 3\<rparr>) (enumerate i cs))"
proof (induction cs arbitrary: i parts srcs)
  case Nil
  show ?case by simp
next
  case (Cons a cs)
  obtain c s where a: "a = (c, s)" by (cases a)
  from Cons.prems a have here: "map_of (metadata c) ''type'' \<noteq> None"
    "map_of (metadata c) ''source'' \<noteq> None"
    and rest: "\<forall>(c, s) \<in> set cs. map_of (metadata c) ''type'' \<noteq> None \<and> map_of (metadata c) ''source'' \<noteq> None"
    by auto
  show ?case
    unfolding a by (simp add: make_source_ok [OF here] bind_def Cons.IH [OF rest])
qed

lemma context_loop_missing:
  "\<exists>(c, s) \<in> set cs. map_of (metadata c) ''type'' = None \<or> map_of (metadata c) ''source'' = None \<Longrightarrow>
   context_loop i cs parts srcs = Inl (KeyError ''type'') \<or>
   context_loop i cs parts srcs = Inl (KeyError ''source'')"
proof (induction cs arbitrary: i parts srcs)
  case Nil
  then show ?case by simp
next
  case (Cons a cs)
  obtain c s where a: "a = (c, s)" by (cases a)
  show ?case
  proof (cases "map_of (metadata c) ''type'' = None \<or> map_of (metadata c) ''source'' = None")
    case True
    from make_source_missing [OF True, of i s] show ?thesis
      unfolding a by (auto simp add: bind_def)
  next
    case False
    then have here: "map_of (metadata c) ''type'' \<noteq> None" "map_of (metadata c) ''source'' \<noteq> None"
      by auto
    from Cons.prems a False
    have "\<exists>(c, s) \<in> set cs. map_of (metadata c) ''type'' = None \<or> map_of (metadata c) ''source'' = None"
      by auto
    from Cons.IH [OF this] show ?thesis
      unfolding a by (simp add: make_source_ok [OF here] bind_def)
  qed
qed


lemma generate_answer_ok:
  assumes "\<forall>(c, s) \<in> set cs. map_of (metadata c) ''type'' \<noteq> None \<and> map_of (metadata c) ''source'' \<noteq> None"
  shows "generate_answer self post query cs t =
     bind (call_llm self post
             (build_prompt query
               (join ''\<newline>''
                 (concat (map (\<lambda>(j, c, s). [''[Documento '' @ str_nat j @ '']'', text c, []])
                    (enumerate 1 cs))))) t)
       (\<lambda>a. Inr \<lparr>answer = a,
                 sources = map (\<lambda>(j, c, s).
                     \<lparr>doc_id = j, type = dict_get (metadata c) ''type'' JNull,
                      name = dict_get (metadata c) ''name'' (JStr ''Unknown''),
                      source = dict_get (metadata c) ''source'' JNull,
                      url = dict_get (metadata c) ''url'' (JStr []),
                      relevance_score = round_digits s 3\<rparr>) (enumerate 1 cs),
                 context_used = length cs\<rparr>)"
  by (simp add: generate_answer_def context_loop_ok [OF assms] bind_def)

lemma generate_answer_missing:
  assumes "\<exists>(c, s) \<in> set cs. map_of (metadata c) ''type'' = None \<or> map_of (metadata c) ''source'' = None"
  shows "generate_answer self post query cs t = Inl (KeyError ''type'') \<or>
     generate_answer self post query cs t = Inl (KeyError ''source'')"
  using context_loop_missing [OF assms, of 1 "[]" "[]"]
  by (auto simp add: generate_answer_def bind_def)




text \<open>
  C10. A ranked chunk whose metadata lacks \<open>type\<close> or \<open>source\<close> makes \<open>generate_answer\<close> fail
  with a \<open>KeyError\<close> on one of the two keys, whatever the generation service does. When all
  chunks carry both keys, the outcome is that of the generation call on the assembled
  prompt, with one source per chunk; in a returned response source \<open>i\<close> has \<open>doc_id = i + 1\<close>,
  a missing \<open>name\<close> reads \<open>Unknown\<close> and a missing \<open>url\<close> reads as the empty string.
\<close>

theorem generate_answer_metadata_keys:
  "((\<exists>(c, s) \<in> set context_chunks.
        map_of (metadata c) ''type'' = None \<or> map_of (metadata c) ''source'' = None) \<longrightarrow>
      generate_answer self post query context_chunks t = Inl (KeyError ''type'') \<or>
      generate_answer self post query context_chunks t = Inl (KeyError ''source''))
   \<and> ((\<forall>(c, s) \<in> set context_chunks.
        map_of (metadata c) ''type'' \<noteq> None \<and> map_of (metadata c) ''source'' \<noteq> None) \<longrightarrow>
      generate_answer self post query context_chunks t =
        bind (call_llm self post
               (build_prompt query
                 (join ''\<newline>''
                   (concat (map (\<lambda>(j, c, s). [''[Documento '' @ str_nat j @ '']'', text c, []])
                      (enumerate 1 context_chunks))))) t)
          (\<lambda>a. Inr \<lparr>answer = a,
                    sources = map (\<lambda>(j, c, s).
                        \<lparr>doc_id = j, type = dict_get (metadata c) ''type'' JNull,
                         name = dict_get (metadata c) ''name'' (JStr ''Unknown''),
                         source = dict_get (metadata c) ''source'' JNull,
                         url = dict_get (metadata c) ''url'' (JStr []),
                         relevance_score = round_digits s 3\<rparr>) (enumerate 1 context_chunks),
                    context_used = length context_chunks\<rparr>))
   \<and> (\<forall>r i. generate_answer self post query context_chunks t = Inr r \<and> i < length context_chunks \<longrightarrow>
        doc_id (sources r ! i) = i + 1
        \<and> (map_of (metadata (fst (context_chunks ! i))) ''name'' = None \<longrightarrow>
             name (sources r ! i) = JStr ''Unknown'')
        \<and> (map_of (metadata (fst (context_chunks ! i))) ''url'' = None \<longrightarrow>
             url (sources r ! i) = JStr []))"
proof (intro conjI impI allI)
  assume "\<exists>(c, s) \<in> set context_chunks.
        map_of (metadata c) ''type'' = None \<or> map_of (metadata c) ''source'' = None"
  then show "generate_answer self post query context_chunks t = Inl (KeyError ''type'') \<or>
      generate_answer self post query context_chunks t = Inl (KeyError ''source'')"
    by (rule generate_answer_missing)
next
  assume "\<forall>(c, s) \<in> set context_chunks.
        map_of (metadata c) ''type'' \<noteq> None \<and> map_of (metadata c) ''source'' \<noteq> None"
  then show "generate_answer self post query context_chunks t =
        bind (call_llm self post
               (build_prompt query
                 (join ''\<newline>''
                   (concat (map (\<lambda>(j, c, s). [''[Documento '' @ str_nat j @ '']'', text c, []])
                      (enumerate 1 context_chunks))))) t)
          (\<lambda>a. Inr \<lparr>answer = a,
                    sources = map (\<lambda>(j, c, s).
                        \<lparr>doc_id = j, type = dict_get (metadata c) ''type'' JNull,
                         name = dict_get (metadata c) ''name'' (JStr ''Unknown''),
                         source = dict_get (metadata c) ''source'' JNull,
                         url = dict_get (metadata c) ''url'' (JStr []),
                         relevance_score = round_digits s 3\<rparr>) (enumerate 1 context_chunks),
                    context_used = length context_chunks\<rparr>)"
    by (rule generate_answer_ok)
next
  fix r i
  assume a: "generate_answer self post query context_chunks t = Inr r \<and> i < length context_chunks"
  have wf: "\<forall>(c, s) \<in> set context_chunks.
        map_of (metadata c) ''type'' \<noteq> None \<and> map_of (metadata c) ''source'' \<noteq> None"
  proof (rule ccontr)
    assume "\<not> ?thesis"
    then have "\<exists>(c, s) \<in> set context_chunks.
        map_of (metadata c) ''type'' = None \<or> map_of (metadata c) ''source'' = None"
      by auto
    from generate_answer_missing [OF this, of self post query t] a show False by auto
  qed
  obtain c s where ci: "context_chunks ! i = (c, s)" by (cases "context_chunks ! i")
  from a have src: "sources r ! i =
      \<lparr>doc_id = 1 + i, type = dict_get (metadata c) ''type'' JNull,
       name = dict_get (metadata c) ''name'' (JStr ''Unknown''),
       source = dict_get (metadata c) ''source'' JNull,
       url = dict_get (metadata c) ''url'' (JStr []),
       relevance_score = round_digits s 3\<rparr>"
    by (auto simp add: generate_answer_ok [OF wf] bind_def nth_enumerate_eq ci split: sum.splits)
  show "doc_id (sources r ! i) = i + 1" by (simp add: src)
  show "name (sources r ! i) = JStr ''Unknown''"
    if "map_of (metadata (fst (context_chunks ! i))) ''name'' = None"
    using that by (simp add: src ci dict_get_def)
  show "url (sources r ! i) = JStr []"
    if "map_of (metadata (fst (context_chunks ! i))) ''url'' = None"
    using that by (simp add: src ci dict_get_def)
qed


theorem generate_answer_metadata_keys_witness:
  "(generate_answer plain_engine timeout_post ''What is cover?'' unlabelled_chunks (3/10) =
         Inl (KeyError ''type'') \<or>
       generate_answer plain_engine timeout_post ''What is cover?'' unlabelled_chunks (3/10) =
         Inl (KeyError ''source''))
   \<and> (\<exists>r. generate_answer plain_engine timeout_post ''What is cover?'' ranked_chunks (3/10) = Inr r
        \<and> (1::nat) < length ranked_chunks
        \<and> map_of (metadata (fst (ranked_chunks ! 1))) ''name'' = None
        \<and> map_of (metadata (fst (ranked_chunks ! 1))) ''url'' = None
        \<and> doc_id (sources r ! 1) = 2
        \<and> name (sources r ! 1) = JStr ''Unknown''
        \<and> url (sources r ! 1) = JStr [])"
proof -
  have missing: "\<exists>(c, s) \<in> set unlabelled_chunks.
      map_of (metadata c) ''type'' = None \<or> map_of (metadata c) ''source'' = None"
    by (simp add: unlabelled_chunks_def)
  have wf: "\<forall>(c, s) \<in> set ranked_chunks.
      map_of (metadata c) ''type'' \<noteq> None \<and> map_of (metadata c) ''source'' \<noteq> None"
    by (simp add: ranked_chunks_def)
  note bad = generate_answer_metadata_keys [where context_chunks = unlabelled_chunks
      and post = timeout_post and self = plain_engine and query = "''What is cover?''"
      and t = "3/10"]
  note good = generate_answer_metadata_keys [where context_chunks = ranked_chunks
      and post = timeout_post and self = plain_engine and query = "''What is cover?''"
      and t = "3/10"]
  from bad missing
  have fails: "generate_answer plain_engine timeout_post ''What is cover?'' unlabelled_chunks (3/10) =
         Inl (KeyError ''type'') \<or>
       generate_answer plain_engine timeout_post ''What is cover?'' unlabelled_chunks (3/10) =
         Inl (KeyError ''source'')"
    by blast
  from good wf
  have "\<exists>r. generate_answer plain_engine timeout_post ''What is cover?'' ranked_chunks (3/10) = Inr r"
    by (simp add: call_llm_def timeout_post_def bind_def)
  then obtain r where
    r: "generate_answer plain_engine timeout_post ''What is cover?'' ranked_chunks (3/10) = Inr r" ..
  have len: "(1::nat) < length ranked_chunks" by (simp add: ranked_chunks_def)
  have noname: "map_of (metadata (fst (ranked_chunks ! 1))) ''name'' = None"
    and nourl: "map_of (metadata (fst (ranked_chunks ! 1))) ''url'' = None"
    by (simp_all add: ranked_chunks_def)
  from good r len noname nourl
  have "doc_id (sources r ! 1) = 2 \<and> name (sources r ! 1) = JStr ''Unknown''
      \<and> url (sources r ! 1) = JStr []"
    by simp
  with r len noname nourl
  have "\<exists>r. generate_answer plain_engine timeout_post ''What is cover?'' ranked_chunks (3/10) = Inr r
        \<and> (1::nat) < length ranked_chunks
        \<and> map_of (metadata (fst (ranked_chunks ! 1))) ''name'' = None
        \<and> map_of (metadata (fst (ranked_chunks ! 1))) ''url'' = None
        \<and> doc_id (sources r ! 1) = 2
        \<and> name (sources r ! 1) = JStr ''Unknown''
        \<and> url (sources r ! 1) = JStr []"
    by (intro exI [of _ r] conjI) simp_all
  with fails show ?thesis by (intro conjI)
qed

section \<open>Properties of the index build\<close>

text \<open>
  C6. With an embedding model that embeds each text of a batch by itself and in order, the
  index build yields as many matrix rows and metadata entries as there are chunks; entry
  \<open>i\<close> has \<open>id = i\<close> and the metadata and token count of chunk \<open>i\<close>, and row \<open>i\<close> is the
  embedding of the text of chunk \<open>i\<close>.
\<close>

theorem step_3_alignment:
  assumes contract: "\<forall>texts. em texts = map embedding texts"
  shows "case step_3_generate_embeddings em cs of
      (matrix, entries) \<Rightarrow>
        length matrix = length cs \<and> length entries = length cs
        \<and> (\<forall>i < length cs.
              entry_id (entries ! i) = i
              \<and> matrix ! i = embedding (text (cs ! i))
              \<and> entry_metadata (entries ! i) = metadata (cs ! i)
              \<and> entry_token_count (entries ! i) = token_count (cs ! i))"
  using contract by (simp add: step_3_generate_embeddings_def nth_enumerate_eq)

theorem step_3_alignment_witness:
  "length (fst (step_3_generate_embeddings length_embedding (map fst ranked_chunks))) = 2
   \<and> length (snd (step_3_generate_embeddings length_embedding (map fst ranked_chunks))) = 2
   \<and> entry_id (snd (step_3_generate_embeddings length_embedding (map fst ranked_chunks)) ! 1) = 1
   \<and> fst (step_3_generate_embeddings length_embedding (map fst ranked_chunks)) ! 1 = [7]"
proof -
  have contract: "\<forall>texts. length_embedding texts = map (\<lambda>t. [real (length t)]) texts"
    by (simp add: length_embedding_def)
  obtain matrix entries where
    s: "step_3_generate_embeddings length_embedding (map fst ranked_chunks) = (matrix, entries)"
    by (cases "step_3_generate_embeddings length_embedding (map fst ranked_chunks)")
  from step_3_alignment [OF contract, of "map fst ranked_chunks"] s
  have "length matrix = 2 \<and> length entries = 2 \<and> entry_id (entries ! 1) = 1 \<and> matrix ! 1 = [7]"
    by (simp add: ranked_chunks_def)
  with s show ?thesis by simp
qed


section \<open>Properties of rule sections\<close>

lemma window_loop_eq:
  "window_loop self title u tokens m starts acc =
     acc @ map (\<lambda>(j, i). \<lparr>text = decode self (slice tokens i (i + m)),
                          metadata = window_metadata title j u,
                          token_count = int (length (slice tokens i (i + m)))\<rparr>)
             (enumerate (length acc) starts)"
  by (induction starts arbitrary: acc) (simp_all add: Let_def)

lemma slice_window:
  assumes "0 \<le> m" and "0 \<le> i"
  shows "slice tokens i (i + m) = take (nat m) (drop (nat i) tokens)"
  using assms by (auto simp add: slice_def slice_bound_def Let_def min_def nat_add_distrib)

lemma range_count:
  assumes s: "0 < (s::int)"
  shows "int k < (n + s - 1) div s \<longleftrightarrow> int k * s < n"
proof
  assume k: "int k < (n + s - 1) div s"
  have "(int k + 1) * s \<le> ((n + s - 1) div s) * s"
    using k s by (intro mult_right_mono) auto
  also have "\<dots> = (n + s - 1) - (n + s - 1) mod s"
    by (simp add: minus_mod_eq_div_mult)
  also have "\<dots> \<le> n + s - 1"
    using pos_mod_sign [OF s, of "n + s - 1"] by simp
  finally show "int k * s < n" by (simp add: algebra_simps)
next
  assume k: "int k * s < n"
  have "(n + s - 1) mod s < s" using s by (rule pos_mod_bound)
  then have "n - 1 < (n + s - 1) - (n + s - 1) mod s" by simp
  also have "\<dots> = ((n + s - 1) div s) * s"
    by (simp add: minus_mod_eq_div_mult)
  finally have "int k * s < ((n + s - 1) div s) * s" using k by simp
  then show "int k < (n + s - 1) div s"
    using s by (simp add: mult_less_cancel_right)
qed

lemma chunk_rule_section_short:
  assumes "count_tokens self (rule_text self r) \<le> max_tokens"
  shows "chunk_rule_section self r max_tokens overlap =
     Inr [\<lparr>text = rule_text self r,
           metadata = rule_metadata (dict_get r ''name'' (JStr ''Unknown Rule''))
             (''https://www.dnd5eapi.co'' @ str (repr self) (dict_get r ''url'' (JStr []))),
           token_count = count_tokens self (rule_text self r)\<rparr>]"
  using assms by (simp add: chunk_rule_section_def Let_def)

lemma chunk_rule_section_split:
  assumes long: "max_tokens < count_tokens self (rule_text self r)"
    and stride: "overlap < max_tokens"
  shows "chunk_rule_section self r max_tokens overlap =
     Inr (map (\<lambda>k. \<lparr>text = decode self (slice (encode self (rule_text self r))
                          (int k * (max_tokens - overlap))
                          (int k * (max_tokens - overlap) + max_tokens)),
                     metadata = window_metadata (dict_get r ''name'' (JStr ''Unknown Rule'')) k
                       (''https://www.dnd5eapi.co'' @ str (repr self) (dict_get r ''url'' (JStr []))),
                     token_count = int (length (slice (encode self (rule_text self r))
                          (int k * (max_tokens - overlap))
                          (int k * (max_tokens - overlap) + max_tokens)))\<rparr>)
            [0..<nat ((int (length (encode self (rule_text self r))) + (max_tokens - overlap) - 1)
                      div (max_tokens - overlap))])"
  using assms
  by (simp add: chunk_rule_section_def Let_def py_range_def bind_def window_loop_eq
      enumerate_map_upt comp_def)


lemma window_token_count:
  assumes size: "0 \<le> max_tokens" and s: "0 < stride"
    and k: "int k * stride < int (length tokens)"
  shows "slice tokens (int k * stride) (int k * stride + max_tokens) =
      take (nat max_tokens) (drop (k * nat stride) tokens)"
    and "int (length (slice tokens (int k * stride) (int k * stride + max_tokens))) =
      min max_tokens (int (length tokens) - int k * stride)"
proof -
  have i: "nat (int k * stride) = k * nat stride"
    using s by (simp add: nat_mult_distrib)
  have "0 \<le> int k * stride" using s by simp
  from slice_window [OF size this, of tokens]
  show w: "slice tokens (int k * stride) (int k * stride + max_tokens) =
      take (nat max_tokens) (drop (k * nat stride) tokens)"
    by (simp add: i)
  have ik: "int (k * nat stride) = int k * stride" using s by simp
  from k have "int (k * nat stride) < int (length tokens)" by (simp only: ik)
  then have lt: "k * nat stride < length tokens" by (simp only: of_nat_less_iff)
  then have "int (length tokens - k * nat stride) = int (length tokens) - int (k * nat stride)"
    by (intro of_nat_diff) simp
  then have d: "int (length tokens - k * nat stride) = int (length tokens) - int k * stride"
    by (simp only: ik)
  have "int (length (take (nat max_tokens) (drop (k * nat stride) tokens))) =
      int (min (length tokens - k * nat stride) (nat max_tokens))"
    by simp
  also have "\<dots> = min max_tokens (int (length tokens) - int k * stride)"
    using d size by linarith
  finally show "int (length (slice tokens (int k * stride) (int k * stride + max_tokens))) =
      min max_tokens (int (length tokens) - int k * stride)"
    by (simp only: w)
qed

lemma short_rule_text: "rule_text char_chunker short_rule = ''# a\<newline>\<newline>''"
  by (simp add: rule_text_def short_rule_def dict_get_def str_def)

lemma short_rule_tokens: "encode char_chunker ''# a\<newline>\<newline>'' = [35, 32, 97, 10, 10]"
  by (simp add: char_chunker_def)

lemma short_rule_count:
  "count_tokens char_chunker (rule_text char_chunker short_rule) = 5"
  "count_tokens char_chunker ''# a\<newline>\<newline>'' = 5"
  by (simp_all add: count_tokens_def short_rule_text short_rule_tokens)

lemma long_rule_count: "count_tokens char_chunker (rule_text char_chunker long_rule) = 1100"
  by (simp add: count_tokens_def rule_text_def long_rule_def dict_get_def str_def char_chunker_def)

text \<open>
  C4 (amended). With \<open>overlap < max_tokens\<close> and \<open>max_tokens \<ge> 0\<close>: a text of at most
  \<open>max_tokens\<close> tokens gives one chunk with the full text. A longer text of \<open>n\<close> tokens
  gives one window per start \<open>k * (max_tokens - overlap)\<close> below \<open>n\<close>; window \<open>k\<close> holds the
  \<open>min max_tokens (n - start)\<close> tokens that begin at its start. So a window is shorter than
  \<open>max_tokens\<close> exactly when fewer than \<open>max_tokens\<close> tokens remain from its start, which
  may be so for the last window and for windows before it. Window \<open>k\<close> carries \<open>chunk_index = k\<close>, every chunk has
  \<open>token_count \<le> max_tokens\<close>, and 1100 tokens with \<open>max_tokens = 512\<close>, \<open>overlap = 50\<close>
  give three windows of 512, 512 and 176 tokens.
\<close>

theorem chunk_rule_section_windows:
  assumes stride: "overlap < max_tokens" and size: "0 \<le> max_tokens"
  shows "(count_tokens self (rule_text self r) \<le> max_tokens \<longrightarrow>
        chunk_rule_section self r max_tokens overlap =
          Inr [\<lparr>text = rule_text self r,
                metadata = rule_metadata (dict_get r ''name'' (JStr ''Unknown Rule''))
                  (''https://www.dnd5eapi.co'' @ str (repr self) (dict_get r ''url'' (JStr []))),
                token_count = count_tokens self (rule_text self r)\<rparr>])
   \<and> (max_tokens < count_tokens self (rule_text self r) \<longrightarrow>
        (\<exists>cs. chunk_rule_section self r max_tokens overlap = Inr cs
           \<and> (\<forall>k. k < length cs \<longleftrightarrow>
                  int k * (max_tokens - overlap) < count_tokens self (rule_text self r))
           \<and> (\<forall>k < length cs.
                  text (cs ! k) =
                    decode self (take (nat max_tokens)
                      (drop (k * nat (max_tokens - overlap)) (encode self (rule_text self r))))
                \<and> token_count (cs ! k) =
                    min max_tokens
                      (count_tokens self (rule_text self r) - int k * (max_tokens - overlap))
                \<and> map_of (metadata (cs ! k)) ''chunk_index'' = Some (JInt (int k)))))
   \<and> (\<forall>cs. chunk_rule_section self r max_tokens overlap = Inr cs \<longrightarrow>
        (\<forall>c \<in> set cs. token_count c \<le> max_tokens))
   \<and> (max_tokens = 512 \<and> overlap = 50 \<and> count_tokens self (rule_text self r) = 1100 \<longrightarrow>
        (\<exists>cs. chunk_rule_section self r max_tokens overlap = Inr cs
           \<and> map token_count cs = [512, 512, 176]))"
proof -
  define tokens where "tokens = encode self (rule_text self r)"
  define s where "s = max_tokens - overlap"
  define K where "K = nat ((int (length tokens) + s - 1) div s)"
  define window where "window k =
      \<lparr>text = decode self (slice tokens (int k * s) (int k * s + max_tokens)),
       metadata = window_metadata (dict_get r ''name'' (JStr ''Unknown Rule'')) k
         (''https://www.dnd5eapi.co'' @ str (repr self) (dict_get r ''url'' (JStr []))),
       token_count = int (length (slice tokens (int k * s) (int k * s + max_tokens)))\<rparr>" for k
  have s: "0 < s" using stride by (simp add: s_def)
  have n: "count_tokens self (rule_text self r) = int (length tokens)"
    by (simp add: count_tokens_def tokens_def)
  have inK: "k < K \<longleftrightarrow> int k * s < int (length tokens)" for k
    unfolding K_def using range_count [OF s, of k "int (length tokens)"]
    by (simp add: zless_nat_eq_int_zless)
  have split: "chunk_rule_section self r max_tokens overlap = Inr (map window [0..<K])"
    if "max_tokens < count_tokens self (rule_text self r)"
    using chunk_rule_section_split [OF that stride]
    by (simp add: window_def [abs_def] K_def s_def tokens_def)
  have win: "text (window k) =
        decode self (take (nat max_tokens) (drop (k * nat s) tokens))
      \<and> token_count (window k) = min max_tokens (int (length tokens) - int k * s)
      \<and> map_of (metadata (window k)) ''chunk_index'' = Some (JInt (int k))"
    if "k < K" for k
  proof -
    from that have "int k * s < int (length tokens)" by (simp add: inK)
    from window_token_count [OF size s this]
    show ?thesis by (simp add: window_def window_metadata_def)
  qed
  have short: "count_tokens self (rule_text self r) \<le> max_tokens \<longrightarrow>
        chunk_rule_section self r max_tokens overlap =
          Inr [\<lparr>text = rule_text self r,
                metadata = rule_metadata (dict_get r ''name'' (JStr ''Unknown Rule''))
                  (''https://www.dnd5eapi.co'' @ str (repr self) (dict_get r ''url'' (JStr []))),
                token_count = count_tokens self (rule_text self r)\<rparr>]"
    by (simp add: chunk_rule_section_short)
  have long: "max_tokens < count_tokens self (rule_text self r) \<longrightarrow>
        (\<exists>cs. chunk_rule_section self r max_tokens overlap = Inr cs
           \<and> (\<forall>k. k < length cs \<longleftrightarrow>
                  int k * (max_tokens - overlap) < count_tokens self (rule_text self r))
           \<and> (\<forall>k < length cs.
                  text (cs ! k) =
                    decode self (take (nat max_tokens)
                      (drop (k * nat (max_tokens - overlap)) (encode self (rule_text self r))))
                \<and> token_count (cs ! k) =
                    min max_tokens
                      (count_tokens self (rule_text self r) - int k * (max_tokens - overlap))
                \<and> map_of (metadata (cs ! k)) ''chunk_index'' = Some (JInt (int k))))"
  proof
    assume l: "max_tokens < count_tokens self (rule_text self r)"
    have a: "\<forall>k. k < length (map window [0..<K]) \<longleftrightarrow>
        int k * (max_tokens - overlap) < count_tokens self (rule_text self r)"
      using inK by (simp add: n s_def)
    have b: "\<forall>k < length (map window [0..<K]).
          text (map window [0..<K] ! k) =
            decode self (take (nat max_tokens)
              (drop (k * nat (max_tokens - overlap)) (encode self (rule_text self r))))
        \<and> token_count (map window [0..<K] ! k) =
            min max_tokens
              (count_tokens self (rule_text self r) - int k * (max_tokens - overlap))
        \<and> map_of (metadata (map window [0..<K] ! k)) ''chunk_index'' = Some (JInt (int k))"
      using win by (simp add: n s_def tokens_def)
    from split [OF l] a b show "\<exists>cs. chunk_rule_section self r max_tokens overlap = Inr cs
           \<and> (\<forall>k. k < length cs \<longleftrightarrow>
                  int k * (max_tokens - overlap) < count_tokens self (rule_text self r))
           \<and> (\<forall>k < length cs.
                  text (cs ! k) =
                    decode self (take (nat max_tokens)
                      (drop (k * nat (max_tokens - overlap)) (encode self (rule_text self r))))
                \<and> token_count (cs ! k) =
                    min max_tokens
                      (count_tokens self (rule_text self r) - int k * (max_tokens - overlap))
                \<and> map_of (metadata (cs ! k)) ''chunk_index'' = Some (JInt (int k)))"
      by blast
  qed
  have bound: "\<forall>cs. chunk_rule_section self r max_tokens overlap = Inr cs \<longrightarrow>
        (\<forall>c \<in> set cs. token_count c \<le> max_tokens)"
  proof (intro allI impI ballI)
    fix cs c
    assume cs: "chunk_rule_section self r max_tokens overlap = Inr cs" and c: "c \<in> set cs"
    show "token_count c \<le> max_tokens"
    proof (cases "count_tokens self (rule_text self r) \<le> max_tokens")
      case True
      with cs c show ?thesis by (auto simp add: chunk_rule_section_short)
    next
      case False
      then have "max_tokens < count_tokens self (rule_text self r)" by simp
      from split [OF this] cs have "cs = map window [0..<K]" by simp
      with c obtain k where "k < K" and "c = window k" by auto
      with win [of k] show ?thesis by simp
    qed
  qed
  have scenario: "max_tokens = 512 \<and> overlap = 50 \<and> count_tokens self (rule_text self r) = 1100 \<longrightarrow>
        (\<exists>cs. chunk_rule_section self r max_tokens overlap = Inr cs
           \<and> map token_count cs = [512, 512, 176])"
  proof
    assume a: "max_tokens = 512 \<and> overlap = 50 \<and> count_tokens self (rule_text self r) = 1100"
    then have l: "max_tokens < count_tokens self (rule_text self r)" by simp
    from a n have len: "int (length tokens) = 1100" by simp
    from a have sv: "s = 462" by (simp add: s_def)
    have Kv: "K = 3" by (simp add: K_def len sv)
    have "map token_count (map window [0..<K]) = [512, 512, 176]"
      using win [of 0] win [of "Suc 0"] win [of "Suc (Suc 0)"] a
      by (simp add: Kv len sv upt_conv_Cons)
    with split [OF l] show "\<exists>cs. chunk_rule_section self r max_tokens overlap = Inr cs
           \<and> map token_count cs = [512, 512, 176]"
      by (intro exI [of _ "map window [0..<K]"] conjI)
  qed
  from short long bound scenario show ?thesis by (intro conjI)
qed


theorem chunk_rule_section_windows_witness:
  "(50::int) < 512 \<and> (0::int) \<le> 512
   \<and> count_tokens char_chunker (rule_text char_chunker long_rule) = 1100
   \<and> (\<exists>cs. chunk_rule_section char_chunker long_rule 512 50 = Inr cs
        \<and> map token_count cs = [512, 512, 176])"
proof -
  have stride: "(50::int) < 512" and size: "(0::int) \<le> 512" by simp_all
  from chunk_rule_section_windows [OF stride size, of char_chunker long_rule] long_rule_count
  have "\<exists>cs. chunk_rule_section char_chunker long_rule 512 50 = Inr cs
        \<and> map token_count cs = [512, 512, 176]"
    by simp
  with stride size long_rule_count show ?thesis by simp
qed

text \<open>
  C4 as stated fails twice. Five tokens with \<open>max_tokens = 4\<close>, \<open>overlap = 2\<close> give windows
  of 4, 3 and 1 tokens: the second window is not the last and is shorter than
  \<open>max_tokens\<close>. With \<open>max_tokens = -1\<close>, \<open>overlap = -2\<close> the first chunk has 4 tokens, more
  than \<open>max_tokens\<close>.
\<close>

theorem chunk_rule_section_windows_counterexample:
  "map_sum id (map (\<lambda>c. (text c, token_count c)))
      (chunk_rule_section char_chunker short_rule 4 2) =
     Inr [(''# a\<newline>'', 4), (''a\<newline>\<newline>'', 3), (''\<newline>'', 1)]
   \<and> map_sum id (map token_count) (chunk_rule_section char_chunker short_rule (- 1) (- 2)) =
     Inr [4, 0, 0, 0, 0]"
proof -
  have d: "decode char_chunker [35, 32, 97, 10] = ''# a\<newline>''"
    "decode char_chunker [97, 10, 10] = ''a\<newline>\<newline>''"
    "decode char_chunker [10] = ''\<newline>''"
    by code_simp+
  have a: "map_sum id (map (\<lambda>c. (text c, token_count c)))
      (chunk_rule_section char_chunker short_rule 4 2) =
     Inr [(''# a\<newline>'', 4), (''a\<newline>\<newline>'', 3), (''\<newline>'', 1)]"
    using short_rule_count
    by (simp add: chunk_rule_section_def Let_def short_rule_text short_rule_tokens
        py_range_def bind_def upt_conv_Cons slice_def slice_bound_def d)
  have b: "map_sum id (map token_count) (chunk_rule_section char_chunker short_rule (- 1) (- 2)) =
     Inr [4, 0, 0, 0, 0]"
    using short_rule_count
    by (simp add: chunk_rule_section_def Let_def short_rule_text short_rule_tokens
        py_range_def bind_def upt_conv_Cons slice_def slice_bound_def)
  from a b show ?thesis by (rule conjI)
qed

lemma py_range_negative_step:
  assumes step: "step < 0" and n: "0 \<le> n"
  shows "py_range 0 n step = Inr []"
proof -
  have "(0 - n - step - 1) div (- step) \<le> (- step - 1) div (- step)"
    using step n by (intro zdiv_mono1) simp_all
  also have "\<dots> = 0"
    using step by (intro div_pos_pos_trivial) simp_all
  finally have "nat ((0 - n - step - 1) div (- step)) = 0" by simp
  with step show ?thesis by (simp add: py_range_def)
qed

lemma chunk_rule_section_negative_stride:
  assumes long: "max_tokens < count_tokens self (rule_text self r)"
    and over: "max_tokens < overlap"
  shows "chunk_rule_section self r max_tokens overlap = Inr []"
proof -
  have "py_range 0 (int (length (encode self (rule_text self r)))) (max_tokens - overlap) = Inr []"
    using over by (intro py_range_negative_step) simp_all
  with long show ?thesis
    by (simp add: chunk_rule_section_def Let_def bind_def)
qed

lemma chunk_rule_section_zero_stride:
  assumes long: "max_tokens < count_tokens self (rule_text self r)"
  shows "chunk_rule_section self r max_tokens max_tokens = Inl ValueError"
  using long by (simp add: chunk_rule_section_def Let_def py_range_def bind_def)

text \<open>
  C3 (amended). \<open>chunk_rule_section\<close> is a total function (the loop runs over a finite
  range) and checks neither parameter. It raises exactly when the text has more than
  \<open>max_tokens\<close> tokens and the stride is zero, \<open>overlap = max_tokens\<close>: then \<open>range\<close> raises
  \<open>ValueError\<close>. With more than \<open>max_tokens\<close> tokens and \<open>overlap > max_tokens\<close> the range
  is empty and the result is the empty chunk list, without an error. A text of at most
  \<open>max_tokens\<close> tokens gives its single chunk whatever the overlap.
\<close>

theorem chunk_rule_section_nonpositive_stride:
  "((\<exists>e. chunk_rule_section self r max_tokens overlap = Inl e) \<longleftrightarrow>
      max_tokens < count_tokens self (rule_text self r) \<and> overlap = max_tokens)
   \<and> (max_tokens < count_tokens self (rule_text self r) \<and> overlap = max_tokens \<longrightarrow>
      chunk_rule_section self r max_tokens overlap = Inl ValueError)
   \<and> (max_tokens < count_tokens self (rule_text self r) \<and> max_tokens < overlap \<longrightarrow>
      chunk_rule_section self r max_tokens overlap = Inr [])
   \<and> (count_tokens self (rule_text self r) \<le> max_tokens \<longrightarrow>
      chunk_rule_section self r max_tokens overlap =
        Inr [\<lparr>text = rule_text self r,
              metadata = rule_metadata (dict_get r ''name'' (JStr ''Unknown Rule''))
                (''https://www.dnd5eapi.co'' @ str (repr self) (dict_get r ''url'' (JStr []))),
              token_count = count_tokens self (rule_text self r)\<rparr>])"
proof (intro conjI impI)
  show "(\<exists>e. chunk_rule_section self r max_tokens overlap = Inl e) \<longleftrightarrow>
      max_tokens < count_tokens self (rule_text self r) \<and> overlap = max_tokens"
  proof (cases "count_tokens self (rule_text self r) \<le> max_tokens")
    case True
    then show ?thesis by (simp add: chunk_rule_section_short)
  next
    case False
    then have long: "max_tokens < count_tokens self (rule_text self r)" by simp
    consider "overlap < max_tokens" | "overlap = max_tokens" | "max_tokens < overlap"
      by linarith
    then show ?thesis
    proof cases
      case 1
      with chunk_rule_section_split [OF long 1] show ?thesis by simp
    next
      case 2
      with long chunk_rule_section_zero_stride [OF long] show ?thesis by simp
    next
      case 3
      with chunk_rule_section_negative_stride [OF long 3] show ?thesis by simp
    qed
  qed
next
  assume "max_tokens < count_tokens self (rule_text self r) \<and> overlap = max_tokens"
  then show "chunk_rule_section self r max_tokens overlap = Inl ValueError"
    by (simp add: chunk_rule_section_zero_stride)
next
  assume "max_tokens < count_tokens self (rule_text self r) \<and> max_tokens < overlap"
  then show "chunk_rule_section self r max_tokens overlap = Inr []"
    by (simp add: chunk_rule_section_negative_stride)
next
  assume "count_tokens self (rule_text self r) \<le> max_tokens"
  then show "chunk_rule_section self r max_tokens overlap =
        Inr [\<lparr>text = rule_text self r,
              metadata = rule_metadata (dict_get r ''name'' (JStr ''Unknown Rule''))
                (''https://www.dnd5eapi.co'' @ str (repr self) (dict_get r ''url'' (JStr []))),
              token_count = count_tokens self (rule_text self r)\<rparr>]"
    by (rule chunk_rule_section_short)
qed

theorem chunk_rule_section_nonpositive_stride_witness:
  "(4 < count_tokens char_chunker (rule_text char_chunker short_rule) \<and> (4::int) = 4)
   \<and> chunk_rule_section char_chunker short_rule 4 4 = Inl ValueError
   \<and> (4 < count_tokens char_chunker (rule_text char_chunker short_rule) \<and> (4::int) < 6)
   \<and> chunk_rule_section char_chunker short_rule 4 6 = Inr []
   \<and> count_tokens char_chunker (rule_text char_chunker short_rule) \<le> 5
   \<and> chunk_rule_section char_chunker short_rule 5 7 =
        Inr [\<lparr>text = ''# a\<newline>\<newline>'',
              metadata = [(''type'', JStr ''rule''), (''section'', JStr ''a''),
                          (''source'', JStr ''SRD 5e''), (''url'', JStr ''https://www.dnd5eapi.co'')],
              token_count = 5\<rparr>]"
proof -
  have zero: "4 < count_tokens char_chunker (rule_text char_chunker short_rule) \<and> (4::int) = 4"
    and neg: "4 < count_tokens char_chunker (rule_text char_chunker short_rule) \<and> (4::int) < 6"
    and short: "count_tokens char_chunker (rule_text char_chunker short_rule) \<le> 5"
    by (simp_all add: short_rule_count)
  note at44 = chunk_rule_section_nonpositive_stride [of char_chunker short_rule 4 4]
  note at46 = chunk_rule_section_nonpositive_stride [of char_chunker short_rule 4 6]
  note at57 = chunk_rule_section_nonpositive_stride [of char_chunker short_rule 5 7]
  from at44 [THEN conjunct2, THEN conjunct1, THEN mp, OF zero]
  have a: "chunk_rule_section char_chunker short_rule 4 4 = Inl ValueError" .
  from at46 [THEN conjunct2, THEN conjunct2, THEN conjunct1, THEN mp, OF neg]
  have e: "chunk_rule_section char_chunker short_rule 4 6 = Inr []" .
  from at57 [THEN conjunct2, THEN conjunct2, THEN conjunct2, THEN mp, OF short]
  have "chunk_rule_section char_chunker short_rule 5 7 =
        Inr [\<lparr>text = rule_text char_chunker short_rule,
              metadata = rule_metadata (dict_get short_rule ''name'' (JStr ''Unknown Rule''))
                (''https://www.dnd5eapi.co'' @
                 str (repr char_chunker) (dict_get short_rule ''url'' (JStr []))),
              token_count = count_tokens char_chunker (rule_text char_chunker short_rule)\<rparr>]" .
  then have b: "chunk_rule_section char_chunker short_rule 5 7 =
        Inr [\<lparr>text = ''# a\<newline>\<newline>'',
              metadata = [(''type'', JStr ''rule''), (''section'', JStr ''a''),
                          (''source'', JStr ''SRD 5e''), (''url'', JStr ''https://www.dnd5eapi.co'')],
              token_count = 5\<rparr>]"
    by (simp add: short_rule_text short_rule_count rule_metadata_def)
      (simp add: short_rule_def dict_get_def str_def)
  from zero a neg e short b show ?thesis by simp
qed

text \<open>
  C3 as stated fails: with \<open>overlap = max_tokens = 5\<close> a text of five tokens is chunked
  without error, and with \<open>overlap = 6 > max_tokens = 4\<close> the same text gives an empty chunk
  list without error.
\<close>

theorem chunk_rule_section_nonpositive_stride_counterexample:
  "chunk_rule_section char_chunker short_rule 5 5 =
     Inr [\<lparr>text = ''# a\<newline>\<newline>'',
           metadata = [(''type'', JStr ''rule''), (''section'', JStr ''a''),
                       (''source'', JStr ''SRD 5e''), (''url'', JStr ''https://www.dnd5eapi.co'')],
           token_count = 5\<rparr>]
   \<and> chunk_rule_section char_chunker short_rule 4 6 = Inr []"
proof -
  have a: "chunk_rule_section char_chunker short_rule 5 5 =
     Inr [\<lparr>text = ''# a\<newline>\<newline>'',
           metadata = [(''type'', JStr ''rule''), (''section'', JStr ''a''),
                       (''source'', JStr ''SRD 5e''), (''url'', JStr ''https://www.dnd5eapi.co'')],
           token_count = 5\<rparr>]"
    using short_rule_count
    by (simp add: chunk_rule_section_def Let_def short_rule_text rule_metadata_def)
      (simp add: short_rule_def dict_get_def str_def)
  have b: "chunk_rule_section char_chunker short_rule 4 6 = Inr []"
    using short_rule_count
    by (simp add: chunk_rule_section_def Let_def short_rule_text short_rule_tokens
        py_range_def bind_def)
  from a b show ?thesis by (rule conjI)
qed


section \<open>Properties of monster chunks\<close>


































section \<open>Properties of spell chunks\<close>































end
